theory Spec2Isabelle
  imports Complex_Main
begin

section \<open>Python errors\<close>

text \<open>
  Every exception the modelled functions can raise is a value; a function that can raise
  returns \<open>py_error + 'a\<close>, with \<open>Inl\<close> for the exception.
\<close>

datatype py_error =
  NotImplementedError | AttributeError | IndexError | KeyError | ValueError
  | NameError | TypeError | ZeroDivisionError

section \<open>lazy_tools: chunked arrays\<close>

text \<open>
  A dask array is lazy: it knows how it is chunked along every axis and can produce the
  frame (the block over the two trailing signal axes) at a navigation coordinate when a
  window of it is computed. \<open>chunks\<close> holds one list of chunk sizes per axis, as
  \<^verbatim>\<open>dask_array.chunks\<close> does; \<open>frames\<close> gives the frame at a navigation coordinate.
  The frame type is left open: the driver hands frames to the per-frame function and never
  looks inside them.

  \<^verbatim>\<open>dask_array.shape\<close> is not stored by dask: it is the sum of the chunk sizes of
  each axis, which is what \<open>shape\<close> computes.
\<close>

record 'f dask_array =
  chunks :: "nat list list"
  frames :: "nat list \<Rightarrow> 'f"

definition shape :: "('f, 'x) dask_array_scheme \<Rightarrow> nat list" where
  "shape a = map sum_list (chunks a)"

text \<open>
  One item of an index expression \<^verbatim>\<open>np.s_[...]\<close>: a range \<^verbatim>\<open>a:b\<close> or the
  full range \<^verbatim>\<open>:\<close>. A window is the tuple of items.
\<close>

datatype slice_item = Slice nat nat | FullSlice

type_synonym window = "slice_item list"

text \<open>\<^verbatim>\<open>xs[:-2]\<close>: everything but the last two entries (empty when there are at most two).\<close>

definition drop_last2 :: "'a list \<Rightarrow> 'a list" where
  "drop_last2 xs = take (length xs - 2) xs"

text \<open>
  The inner loop of \<^verbatim>\<open>_get_dask_chunk_slice_list\<close> over one axis: \<open>current_v\<close> is the
  running offset, and each chunk appends \<open>(current_v, current_v + chunk)\<close>.
\<close>

fun temp_slice_dim :: "nat \<Rightarrow> nat list \<Rightarrow> (nat \<times> nat) list" where
  "temp_slice_dim current_v [] = []"
| "temp_slice_dim current_v (chunk # chunk_list) =
     (current_v, current_v + chunk) # temp_slice_dim (current_v + chunk) chunk_list"

definition slice_list_1d :: "(nat \<times> nat) list \<Rightarrow> window list" where
  "slice_list_1d ts = map (\<lambda>slice_t. [Slice (fst slice_t) (snd slice_t), FullSlice, FullSlice]) ts"

definition slice_list_2d :: "(nat \<times> nat) list \<Rightarrow> (nat \<times> nat) list \<Rightarrow> window list" where
  "slice_list_2d ts0 ts1 =
     concat (map (\<lambda>slice_t0. map (\<lambda>slice_t1.
        [Slice (fst slice_t0) (snd slice_t0), Slice (fst slice_t1) (snd slice_t1),
         FullSlice, FullSlice]) ts1) ts0)"

text \<open>
  \<^verbatim>\<open>_get_dask_chunk_slice_list\<close>. The rank check rejects rank 2 and every rank above 4;
  the boundary pairs are computed for every axis but the last two; one list of pairs gives
  the 1-D windows, two give the 2-D windows, and any other number leaves the list empty.
\<close>

definition get_dask_chunk_slice_list :: "('f, 'x) dask_array_scheme \<Rightarrow> py_error + window list" where
  "get_dask_chunk_slice_list dask_array =
     (let chunk_list_dim = shape dask_array in
      if length chunk_list_dim = 2 \<or> length chunk_list_dim > 4 then Inl NotImplementedError
      else
        let temp_slice_list = map (temp_slice_dim 0) (drop_last2 (chunks dask_array)) in
        Inr (if length temp_slice_list = 1 then slice_list_1d (temp_slice_list ! 0)
             else if length temp_slice_list = 2
               then slice_list_2d (temp_slice_list ! 0) (temp_slice_list ! 1)
             else []))"

section \<open>lazy_tools: the chunked-apply driver\<close>

text \<open>
  A dense NumPy array of any rank: an element, or a list of sub-arrays along the first
  axis. \<^verbatim>\<open>np.zeros(shape)\<close> builds it; with the empty shape it is the 0-d array
  holding one zero.
\<close>

datatype 'v ndarray = Elem 'v | Arr "'v ndarray list"

fun np_zeros :: "nat list \<Rightarrow> ('v::zero) ndarray" where
  "np_zeros [] = Elem 0"
| "np_zeros (n # ns) = Arr (replicate n (np_zeros ns))"

text \<open>What the per-frame function returns for one frame: a scalar or a vector.\<close>

datatype 'v out_data = Scalar 'v | Vector "'v list"

text \<open>
  The value written by \<^verbatim>\<open>return_data[i_x, i_y] = out_data\<close>, whose target is one
  element: a scalar is stored, and a vector of any length is refused by NumPy with a
  ValueError (an array element cannot be set with a sequence).
\<close>

fun cell_value :: "'v out_data \<Rightarrow> py_error + 'v ndarray" where
  "cell_value (Scalar v) = Inr (Elem v)"
| "cell_value (Vector vs) = Inl ValueError"

text \<open>
  The value written by \<^verbatim>\<open>return_data[i_x, i_y, :] = out_data\<close>, whose target is a row
  of \<open>n\<close> elements: NumPy broadcasts a scalar or a one-element vector along the row, takes
  a vector of length \<open>n\<close> as it is, and refuses any other length with a ValueError.
\<close>

fun row_value :: "nat \<Rightarrow> 'v out_data \<Rightarrow> py_error + 'v ndarray" where
  "row_value n (Scalar v) = Inr (Arr (replicate n (Elem v)))"
| "row_value n (Vector vs) =
     (if length vs = n then Inr (Arr (map Elem vs))
      else if length vs = 1 then Inr (Arr (replicate n (Elem (hd vs))))
      else Inl ValueError)"

text \<open>
  Assignment at an index path: the target is found first (an index past the end of an axis,
  or more indices than axes, is an IndexError), then the value is written in its place.
\<close>

fun setitem :: "nat list \<Rightarrow> py_error + 'v ndarray \<Rightarrow> 'v ndarray \<Rightarrow> py_error + 'v ndarray" where
  "setitem [] val target = val"
| "setitem (i # idx) val (Elem v) = Inl IndexError"
| "setitem (i # idx) val (Arr xs) =
     (if i < length xs
      then (case setitem idx val (xs ! i) of
              Inl e \<Rightarrow> Inl e
            | Inr y \<Rightarrow> Inr (Arr (xs[i := y])))
      else Inl IndexError)"

text \<open>A \<^verbatim>\<open>for\<close> loop over a list whose body updates a state and may raise.\<close>

fun for_each :: "('x \<Rightarrow> 's \<Rightarrow> py_error + 's) \<Rightarrow> 'x list \<Rightarrow> 's \<Rightarrow> py_error + 's" where
  "for_each body [] s = Inr s"
| "for_each body (x # xs) s =
     (case body x s of Inl e \<Rightarrow> Inl e | Inr s' \<Rightarrow> for_each body xs s')"

text \<open>
  \<^verbatim>\<open>dask_array[slice_chunk]\<close>: a range \<^verbatim>\<open>a:b\<close> on an axis of length \<open>n\<close> is clipped
  to the axis, so it selects the indices from \<open>min a n\<close> up to \<open>min b n\<close>. The shape of the
  selection, and the global coordinate of the frame at a local offset of the computed chunk.
\<close>

definition item_len :: "nat \<Rightarrow> slice_item \<Rightarrow> nat" where
  "item_len n it = (case it of Slice a b \<Rightarrow> min b n - min a n | FullSlice \<Rightarrow> n)"

definition item_origin :: "nat \<Rightarrow> slice_item \<Rightarrow> nat" where
  "item_origin n it = (case it of Slice a b \<Rightarrow> min a n | FullSlice \<Rightarrow> 0)"

definition sliced_shape :: "nat list \<Rightarrow> window \<Rightarrow> nat list" where
  "sliced_shape sh w = map2 item_len sh w @ drop (length w) sh"

definition chunk_frame :: "('f, 'x) dask_array_scheme \<Rightarrow> window \<Rightarrow> nat list \<Rightarrow> 'f" where
  "chunk_frame dask_array w loc =
     frames dask_array (map2 (\<lambda>(n, it) i. item_origin n it + i) (zip (shape dask_array) w) loc)"

text \<open>
  \<^verbatim>\<open>.start\<close> of one item of a window, as an operand of \<^verbatim>\<open>+\<close>: the start of the full
  range is \<^verbatim>\<open>None\<close>, and adding an integer to it is a TypeError.
\<close>

fun item_start :: "slice_item \<Rightarrow> py_error + nat" where
  "item_start (Slice a b) = Inr a"
| "item_start FullSlice = Inl TypeError"

text \<open>
  The body of the frame loop for two navigation axes (lines 113 to 121): read the frame, add
  the window's starts to the local offsets, call the function, store its result. An error of
  the function is passed on.
\<close>

definition store_frame_2d ::
  "('f, 'x) dask_array_scheme \<Rightarrow> ('f \<Rightarrow> py_error + 'v out_data) \<Rightarrow> nat \<Rightarrow> window \<Rightarrow>
     nat \<times> nat \<Rightarrow> 'v ndarray \<Rightarrow> py_error + 'v ndarray" where
  "store_frame_2d dask_array function return_sig_size slice_chunk im_slice return_data =
     (let im = chunk_frame dask_array slice_chunk [fst im_slice, snd im_slice] in
      case item_start (slice_chunk ! 0) of Inl e \<Rightarrow> Inl e | Inr s0 \<Rightarrow>
     (case item_start (slice_chunk ! 1) of Inl e \<Rightarrow> Inl e | Inr s1 \<Rightarrow>
        (let i_x = s0 + fst im_slice; i_y = s1 + snd im_slice in
         case function im of Inl e \<Rightarrow> Inl e | Inr out_data \<Rightarrow>
          (if return_sig_size = 1
           then setitem [i_x, i_y] (cell_value out_data) return_data
           else setitem [i_x, i_y] (row_value return_sig_size out_data) return_data))))"

text \<open>
  The body of the frame loop for one navigation axis (lines 101 to 108). The window is the
  tuple \<^verbatim>\<open>np.s_[a:b, :, :]\<close>, and line 103 reads \<^verbatim>\<open>slice_chunk.start\<close> of that
  tuple, which has no such attribute: the first frame of a window raises AttributeError,
  after the frame is read and before the function is called.
\<close>

definition store_frame_1d ::
  "('f, 'x) dask_array_scheme \<Rightarrow> ('f \<Rightarrow> py_error + 'v out_data) \<Rightarrow> nat \<Rightarrow> window \<Rightarrow>
     nat \<Rightarrow> 'v ndarray \<Rightarrow> py_error + 'v ndarray" where
  "store_frame_1d dask_array function return_sig_size slice_chunk im_slice return_data =
     (let im = chunk_frame dask_array slice_chunk [im_slice] in Inl AttributeError)"

text \<open>
  One turn of the loop over the windows (lines 94 to 121): the chunk is computed, the list
  of local offsets is built from its navigation shape, and the frames are processed in that
  order. A chunk with neither one nor two navigation axes is skipped.
\<close>

definition process_chunk ::
  "('f, 'x) dask_array_scheme \<Rightarrow> ('f \<Rightarrow> py_error + 'v out_data) \<Rightarrow> nat \<Rightarrow> window \<Rightarrow>
     'v ndarray \<Rightarrow> py_error + 'v ndarray" where
  "process_chunk dask_array function return_sig_size slice_chunk return_data =
     (let data_slice_shape = drop_last2 (sliced_shape (shape dask_array) slice_chunk) in
      if length data_slice_shape = 1 then
        for_each (store_frame_1d dask_array function return_sig_size slice_chunk)
          [0..<data_slice_shape ! 0] return_data
      else if length data_slice_shape = 2 then
        for_each (store_frame_2d dask_array function return_sig_size slice_chunk)
          (concat (map (\<lambda>im_slice0. map (\<lambda>im_slice1. (im_slice0, im_slice1))
                     [0..<data_slice_shape ! 1]) [0..<data_slice_shape ! 0]))
          return_data
      else Inr return_data)"

text \<open>
  \<^verbatim>\<open>_calculate_function_on_dask_array\<close>. The keyword arguments \<^verbatim>\<open>func_args\<close> are
  part of \<open>function\<close> here (the function is called with the same ones for every frame), and
  the progress bar changes no value. The rank check comes first, then the output array is
  allocated, then the windows are processed in the order of the list.
\<close>

definition calculate_function_on_dask_array ::
  "('f, 'x) dask_array_scheme \<Rightarrow> ('f \<Rightarrow> py_error + 'v out_data) \<Rightarrow> nat \<Rightarrow>
     py_error + ('v::zero) ndarray" where
  "calculate_function_on_dask_array dask_array function return_sig_size =
     (if length (shape dask_array) = 2 \<or> length (shape dask_array) > 4
      then Inl NotImplementedError
      else
        let return_data =
              (if return_sig_size = 1 then np_zeros (drop_last2 (shape dask_array))
               else np_zeros (drop_last2 (shape dask_array) @ [return_sig_size]))
        in case get_dask_chunk_slice_list dask_array of
             Inl e \<Rightarrow> Inl e
           | Inr slice_list \<Rightarrow>
               for_each (process_chunk dask_array function return_sig_size) slice_list
                 return_data)"

text \<open>
  The direct computation the driver is compared with: visit every navigation coordinate
  \<open>(i, j)\<close> of an \<open>n0\<close> by \<open>n1\<close> grid in row-major order, compute the frame there, call the
  function on it and store its scalar result at \<open>(i, j)\<close> of a zero-initialised array.
\<close>

definition direct_loop_2d ::
  "('f, 'x) dask_array_scheme \<Rightarrow> ('f \<Rightarrow> py_error + 'v out_data) \<Rightarrow> nat \<Rightarrow> nat \<Rightarrow>
     py_error + ('v::zero) ndarray" where
  "direct_loop_2d dask_array function n0 n1 =
     for_each
       (\<lambda>ij out. case function (frames dask_array [fst ij, snd ij]) of
                    Inl e \<Rightarrow> Inl e
                  | Inr r \<Rightarrow> setitem [fst ij, snd ij] (cell_value r) out)
       (concat (map (\<lambda>i. map (\<lambda>j. (i, j)) [0..<n1]) [0..<n0]))
       (np_zeros [n0, n1])"

text \<open>The indices one item of a window selects on its axis.\<close>

fun item_indices :: "slice_item \<Rightarrow> nat set" where
  "item_indices (Slice a b) = {a..<b}"
| "item_indices FullSlice = UNIV"

section \<open>pdf_utils: numbers and arrays\<close>

text \<open>
  The arrays of \<^verbatim>\<open>pdf_utils\<close> hold float64 values. For the transforms that return a
  value the model keeps what IEEE 754 arithmetic adds to the reals: the two zeros, the two
  infinities and \<^verbatim>\<open>nan\<close>. \<open>Num r\<close> is the finite value \<open>r\<close> (\<open>Num 0\<close> is
  \<^verbatim>\<open>+0.0\<close>), \<open>NegZero\<close> is \<^verbatim>\<open>-0.0\<close>, \<open>Inf s\<close> is the infinity of sign \<open>s\<close>
  (\<open>True\<close> for negative).

  How a non-zero exact result is rounded (to a finite value, to a zero on underflow, to an
  infinity on overflow) is a parameter \<open>rnd\<close> of every operation that rounds, and so is the
  sine \<open>sn\<close> of a non-zero finite argument: no theorem depends on what they return.
\<close>

datatype f64 = Num real | NegZero | Inf bool | NaN

fun is_nan :: "f64 \<Rightarrow> bool" where
  "is_nan NaN = True"
| "is_nan x = False"

fun is_inf :: "f64 \<Rightarrow> bool" where
  "is_inf (Inf s) = True"
| "is_inf x = False"

fun is_zero :: "f64 \<Rightarrow> bool" where
  "is_zero (Num r) = (r = 0)"
| "is_zero NegZero = True"
| "is_zero x = False"

fun sign_bit :: "f64 \<Rightarrow> bool" where
  "sign_bit (Num r) = (r < 0)"
| "sign_bit NegZero = True"
| "sign_bit (Inf s) = s"
| "sign_bit NaN = False"

fun num_value :: "f64 \<Rightarrow> real" where
  "num_value (Num r) = r"
| "num_value x = 0"

definition signed_zero :: "bool \<Rightarrow> f64" where
  "signed_zero s = (if s then NegZero else Num 0)"

text \<open>
  Multiplication: \<^verbatim>\<open>nan\<close> in gives \<^verbatim>\<open>nan\<close> out, infinity times zero is
  \<^verbatim>\<open>nan\<close>, an infinity or a zero keeps its kind with the product of the signs, and
  the product of two non-zero finite values is rounded.
\<close>

definition fmul :: "(real \<Rightarrow> f64) \<Rightarrow> f64 \<Rightarrow> f64 \<Rightarrow> f64" where
  "fmul rnd x y =
     (if is_nan x \<or> is_nan y then NaN
      else if (is_inf x \<and> is_zero y) \<or> (is_zero x \<and> is_inf y) then NaN
      else if is_inf x \<or> is_inf y then Inf (sign_bit x \<noteq> sign_bit y)
      else if is_zero x \<or> is_zero y then signed_zero (sign_bit x \<noteq> sign_bit y)
      else rnd (num_value x * num_value y))"

text \<open>
  NumPy's division of float64 values, which never raises: \<^verbatim>\<open>nan\<close> in gives
  \<^verbatim>\<open>nan\<close> out, infinity by infinity and zero by zero are \<^verbatim>\<open>nan\<close>, an infinite
  dividend or a zero divisor gives an infinity, a zero dividend or an infinite divisor gives
  a zero, and the quotient of two non-zero finite values is rounded.
\<close>

definition fdiv :: "(real \<Rightarrow> f64) \<Rightarrow> f64 \<Rightarrow> f64 \<Rightarrow> f64" where
  "fdiv rnd x y =
     (if is_nan x \<or> is_nan y then NaN
      else if (is_inf x \<and> is_inf y) \<or> (is_zero x \<and> is_zero y) then NaN
      else if is_inf x \<or> is_zero y then Inf (sign_bit x \<noteq> sign_bit y)
      else if is_zero x \<or> is_inf y then signed_zero (sign_bit x \<noteq> sign_bit y)
      else rnd (num_value x / num_value y))"

text \<open>
  \<^verbatim>\<open>np.sin\<close>: \<^verbatim>\<open>nan\<close> for \<^verbatim>\<open>nan\<close> and for the infinities, a zero for the
  same zero, \<open>sn\<close> of the value otherwise.
\<close>

definition fsin :: "(real \<Rightarrow> f64) \<Rightarrow> f64 \<Rightarrow> f64" where
  "fsin sn x =
     (if is_nan x \<or> is_inf x then NaN
      else if is_zero x then x
      else sn (num_value x))"

text \<open>The largest finite float64, \<^verbatim>\<open>(2 - 2**-52) * 2**1023\<close>.\<close>

definition float64_max :: real where
  "float64_max = (2 ^ 53 - 1) * 2 ^ 971"

text \<open>
  \<^verbatim>\<open>np.nan_to_num\<close>: \<^verbatim>\<open>nan\<close> becomes \<^verbatim>\<open>0.0\<close>, the infinities become the
  largest and the smallest finite float64, every other value stays.
\<close>

fun nan_to_num :: "f64 \<Rightarrow> f64" where
  "nan_to_num NaN = Num 0"
| "nan_to_num (Inf s) = Num (if s then - float64_max else float64_max)"
| "nan_to_num x = x"

text \<open>\<^verbatim>\<open>np.pi\<close>, the float64 nearest to \<open>\<pi>\<close>: \<^verbatim>\<open>0x1.921fb54442d18p+1\<close>.\<close>

definition np_pi :: f64 where
  "np_pi = Num (884279719003555 / 2 ^ 48)"

text \<open>
  An instance of the two rounding parameters that keeps every result exact. It is used to
  run the model on concrete inputs and stands for no particular hardware.
\<close>

definition no_rounding :: "real \<Rightarrow> f64" where
  "no_rounding r = Num r"

definition exact_sin :: "real \<Rightarrow> f64" where
  "exact_sin a = Num (sin a)"

text \<open>
  \<^verbatim>\<open>z[index_min:]\<close> on a one-dimensional array: a negative index counts from the end,
  and the start is clipped to the array.
\<close>

definition py_slice_from :: "'a list \<Rightarrow> int \<Rightarrow> 'a list" where
  "py_slice_from xs i =
     (let n = int (length xs);
          start = (if i < 0 then max (n + i) 0 else min i n)
      in drop (nat start) xs)"

text \<open>
  \<^verbatim>\<open>np.max\<close>: the maximum of an empty array is a ValueError. \<open>amax\<close> is the value
  NumPy's reduction returns on a non-empty array, whatever the element type and whatever
  it does with \<^verbatim>\<open>nan\<close> and with zeros of both signs.
\<close>

definition np_max :: "('f list \<Rightarrow> 'f) \<Rightarrow> 'f list \<Rightarrow> py_error + 'f" where
  "np_max amax xs = (if xs = [] then Inl ValueError else Inr (amax xs))"

text \<open>
  \<^verbatim>\<open>x * y\<close> on two one-dimensional arrays: elementwise when the lengths agree, an array
  of length one is broadcast along the other, and any other pair of lengths is a ValueError.
  \<open>np_multiply\<close> is the product of exact reals, \<open>np_multiply_f64\<close> the product of float64
  values.
\<close>

definition np_multiply :: "real list \<Rightarrow> real list \<Rightarrow> py_error + real list" where
  "np_multiply xs ys =
     (if length xs = length ys then Inr (map2 (*) xs ys)
      else if length xs = 1 then Inr (map (\<lambda>y. hd xs * y) ys)
      else if length ys = 1 then Inr (map (\<lambda>x. x * hd ys) xs)
      else Inl ValueError)"

definition np_multiply_f64 :: "(real \<Rightarrow> f64) \<Rightarrow> f64 list \<Rightarrow> f64 list \<Rightarrow> py_error + f64 list" where
  "np_multiply_f64 rnd xs ys =
     (if length xs = length ys then Inr (map2 (fmul rnd) xs ys)
      else if length xs = 1 then Inr (map (\<lambda>y. fmul rnd (hd xs) y) ys)
      else if length ys = 1 then Inr (map (\<lambda>x. fmul rnd x (hd ys)) xs)
      else Inl ValueError)"

text \<open>
  \<^verbatim>\<open>s_scale * np.arange(s_size, dtype='float64')\<close>, on exact reals and on float64
  values. Element \<open>k\<close> of the range is the float64 \<open>k\<close>, which is exact for every length an
  array can have.
\<close>

definition scattering_axis :: "real \<Rightarrow> nat \<Rightarrow> real list" where
  "scattering_axis s_scale s_size = map (\<lambda>k. s_scale * real k) [0..<s_size]"

definition scattering_axis_f64 :: "(real \<Rightarrow> f64) \<Rightarrow> f64 \<Rightarrow> nat \<Rightarrow> f64 list" where
  "scattering_axis_f64 rnd s_scale s_size =
     map (\<lambda>k. fmul rnd s_scale (Num (real k))) [0..<s_size]"

text \<open>
  The names bound at the top level of \<^verbatim>\<open>pdf_utils.py\<close>: its one import,
  \<^verbatim>\<open>import numpy as np\<close>, and its eight functions. A function body that reads any other
  global name (none of the names below is a builtin) raises NameError when it reaches it.
\<close>

definition pdf_utils_globals :: "string list" where
  "pdf_utils_globals =
     [''np'', ''normalise_pdf_signal_to_max'', ''mask_from_pattern'',
      ''scattering_to_signal_lobato'', ''scattering_to_signal_xtables'',
      ''damp_ri_exponential'', ''damp_ri_lorch'', ''damp_ri_updated_lorch'',
      ''damp_ri_low_q_region_erfc'']"

definition resolve_global :: "string \<Rightarrow> 'a \<Rightarrow> py_error + 'a" where
  "resolve_global name v = (if name \<in> set pdf_utils_globals then Inr v else Inl NameError)"

section \<open>pdf_utils: the per-pixel transforms\<close>

text \<open>
  \<^verbatim>\<open>normalise_pdf_signal_to_max\<close> (lines 39 and 40): the maximum of the sub-range,
  then \<^verbatim>\<open>np.divide\<close> of every element of \<open>z\<close> by it. \<open>np_divide\<close> is NumPy's
  division of one element by the maximum; it never raises. The element type is left open.
\<close>

definition normalise_pdf_signal_to_max ::
  "('f list \<Rightarrow> 'f) \<Rightarrow> ('f \<Rightarrow> 'f \<Rightarrow> 'q) \<Rightarrow> 'f list \<Rightarrow> int \<Rightarrow> py_error + 'q list" where
  "normalise_pdf_signal_to_max amax np_divide z index_min =
     (case np_max amax (py_slice_from z index_min) of
        Inl e \<Rightarrow> Inl e
      | Inr max_val \<Rightarrow> Inr (map (\<lambda>x. np_divide x max_val) z))"

text \<open>
  \<^verbatim>\<open>damp_ri_lorch\<close> (lines 211 to 216). \<^verbatim>\<open>np.pi / s_max\<close> divides two Python
  floats, which raises ZeroDivisionError for a zero \<open>s_max\<close> of either sign and is the
  float64 quotient otherwise. The damping term is computed on the generated axis, where the
  division is NumPy's, and goes through \<open>nan_to_num\<close> before it is multiplied with \<open>z\<close>.
\<close>

definition lorch_damping_term ::
  "(real \<Rightarrow> f64) \<Rightarrow> (real \<Rightarrow> f64) \<Rightarrow> f64 \<Rightarrow> f64 \<Rightarrow> nat \<Rightarrow> f64 list" where
  "lorch_damping_term rnd sn delta s_scale s_size =
     map nan_to_num
       (map (\<lambda>s. fdiv rnd (fsin sn (fmul rnd delta s)) (fmul rnd delta s))
          (scattering_axis_f64 rnd s_scale s_size))"

definition damp_ri_lorch ::
  "(real \<Rightarrow> f64) \<Rightarrow> (real \<Rightarrow> f64) \<Rightarrow> f64 list \<Rightarrow> f64 \<Rightarrow> f64 \<Rightarrow> nat \<Rightarrow> py_error + f64 list" where
  "damp_ri_lorch rnd sn z s_max s_scale s_size =
     (if is_zero s_max then Inl ZeroDivisionError
      else let delta = fdiv rnd np_pi s_max in
           np_multiply_f64 rnd z (lorch_damping_term rnd sn delta s_scale s_size))"

text \<open>
  \<^verbatim>\<open>damp_ri_low_q_region_erfc\<close> (lines 282 to 285). The axis is built first; line 284
  then reads the global name \<^verbatim>\<open>special\<close>. \<open>erf\<close> stands for the function
  \<^verbatim>\<open>special.erf\<close> would be if the name were bound; what would follow is written on
  exact reals.
\<close>

definition damp_ri_low_q_region_erfc ::
  "(real \<Rightarrow> real) \<Rightarrow> real list \<Rightarrow> real \<Rightarrow> real \<Rightarrow> real \<Rightarrow> nat \<Rightarrow> py_error + real list" where
  "damp_ri_low_q_region_erfc erf z scale offset s_scale s_size =
     (let axis = scattering_axis s_scale s_size in
      case resolve_global ''special'' erf of
        Inl e \<Rightarrow> Inl e
      | Inr special_erf \<Rightarrow>
          np_multiply z (map (\<lambda>s. (special_erf (s * scale - offset) + 1) / 2) axis))"

section \<open>pdf_utils: the scattering-curve synthesizer\<close>

text \<open>
  A table of scattering parameters maps an element symbol to its list of parameter pairs
  \<^verbatim>\<open>[a, b]\<close>. The tables themselves are not part of \<^verbatim>\<open>pdf_utils.py\<close>, so a table
  is a parameter of the model: it is the value the table's name would have if the module
  bound it.

  \<^verbatim>\<open>N.data\<close> and \<^verbatim>\<open>C.data\<close> are two-dimensional arrays: their two lengths and
  the value at a position.
\<close>

type_synonym scattering_table = "string \<Rightarrow> (real \<times> real) list option"

record grid =
  dim0 :: nat
  dim1 :: nat
  data_at :: "nat \<Rightarrow> nat \<Rightarrow> real"

text \<open>
  Lines 87 to 90 (and 139 to 142): the loop over the element symbols. Each turn reads the
  global name of the table and then looks the symbol up in it; a symbol the table does not
  hold is a KeyError. With no element the name is never read.
\<close>

fun lookup_params ::
  "string \<Rightarrow> scattering_table \<Rightarrow> string list \<Rightarrow> py_error + (real \<times> real) list list" where
  "lookup_params name tbl [] = Inr []"
| "lookup_params name tbl (e # es) =
     (case resolve_global name tbl of
        Inl err \<Rightarrow> Inl err
      | Inr t \<Rightarrow>
          (case t e of
             None \<Rightarrow> Inl KeyError
           | Some p \<Rightarrow>
               (case lookup_params name tbl es of
                  Inl err \<Rightarrow> Inl err
                | Inr ps \<Rightarrow> Inr (p # ps))))"

text \<open>
  The base curve of one element on the axis \<open>x\<close>: \<open>fi\<close> starts at zero and every
  parameter pair adds its term (lines 101 to 105 for the Lobato model, 153 to 155 for the
  International Tables).
\<close>

definition lobato_term :: "real \<times> real \<Rightarrow> real \<Rightarrow> real" where
  "lobato_term p xk =
     fst p * (2 + snd p * (2 * xk)\<^sup>2) * (1 / (1 + snd p * (2 * xk)\<^sup>2)\<^sup>2)"

definition xtables_term :: "real \<times> real \<Rightarrow> real \<Rightarrow> real" where
  "xtables_term p xk = fst p * exp (- snd p * xk\<^sup>2)"

definition base_curve ::
  "(real \<times> real \<Rightarrow> real \<Rightarrow> real) \<Rightarrow> (real \<times> real) list \<Rightarrow> real list \<Rightarrow> real list" where
  "base_curve term element x =
     fold (\<lambda>p fi. map2 (+) fi (map (term p) x)) element (replicate (length x) 0)"

text \<open>
  The loop over the elements (lines 100 to 108): \<open>fracs[i]\<close> past the end of \<open>fracs\<close> is
  an IndexError. \<open>sum_squares\<close> and \<open>square_sum\<close> are three-dimensional in the code, but
  every pixel receives the same one-dimensional update, so the state kept here is the one
  curve all pixels share.
\<close>

fun accumulate_curves ::
  "(real \<times> real \<Rightarrow> real \<Rightarrow> real) \<Rightarrow> real list \<Rightarrow> real list \<Rightarrow> nat \<Rightarrow>
     (real \<times> real) list list \<Rightarrow> real list \<times> real list \<Rightarrow> py_error + real list \<times> real list" where
  "accumulate_curves term x fracs i [] acc = Inr acc"
| "accumulate_curves term x fracs i (element # rest) acc =
     (let fi = base_curve term element x in
      if i < length fracs then
        (let elem_frac = fracs ! i in
         accumulate_curves term x fracs (Suc i) rest
           (map2 (+) (fst acc) (map (\<lambda>v. v\<^sup>2 * elem_frac) fi),
            map2 (+) (snd acc) (map (\<lambda>v. v * elem_frac) fi)))
      else Inl IndexError)"

text \<open>
  \<^verbatim>\<open>C.data.reshape(x_size, y_size, 1)\<close>: a ValueError unless \<open>C\<close> has
  \<open>x_size * y_size\<close> values; otherwise the value at \<open>(i, j)\<close> is the one at row-major
  position \<open>i * y_size + j\<close> of \<open>C\<close>.
\<close>

definition reshape_to :: "grid \<Rightarrow> nat \<Rightarrow> nat \<Rightarrow> py_error + (nat \<Rightarrow> nat \<Rightarrow> real)" where
  "reshape_to g x_size y_size =
     (if dim0 g * dim1 g = x_size * y_size
      then Inr (\<lambda>i j. data_at g ((i * y_size + j) div dim1 g) ((i * y_size + j) mod dim1 g))
      else Inl ValueError)"

text \<open>Lines 92 to 113 (and 144 to 163), from the looked-up parameters on.\<close>

definition scattering_curves ::
  "(real \<times> real \<Rightarrow> real \<Rightarrow> real) \<Rightarrow> (real \<times> real) list list \<Rightarrow> real list \<Rightarrow> grid \<Rightarrow> grid \<Rightarrow>
     nat \<Rightarrow> real \<Rightarrow> py_error + real list list list \<times> real list list list" where
  "scattering_curves term params fracs N C s_size s_scale =
     (let x_size = dim0 N; y_size = dim1 N;
          x = scattering_axis s_scale s_size in
      case accumulate_curves term x fracs 0 params
             (replicate s_size 0, replicate s_size 0) of
        Inl e \<Rightarrow> Inl e
      | Inr acc \<Rightarrow>
          (case reshape_to N x_size y_size of
             Inl e \<Rightarrow> Inl e
           | Inr Nr \<Rightarrow>
               (case reshape_to C x_size y_size of
                  Inl e \<Rightarrow> Inl e
                | Inr Cr \<Rightarrow>
                    Inr (map (\<lambda>i. map (\<lambda>j. map (\<lambda>v. Nr i j * v + Cr i j) (fst acc))
                                 [0..<y_size]) [0..<x_size],
                         map (\<lambda>i. map (\<lambda>j. map (\<lambda>v. Nr i j * v) (snd acc))
                                 [0..<y_size]) [0..<x_size]))))"

definition scattering_to_signal_lobato ::
  "scattering_table \<Rightarrow> string list \<Rightarrow> real list \<Rightarrow> grid \<Rightarrow> grid \<Rightarrow> nat \<Rightarrow> real \<Rightarrow>
     py_error + real list list list \<times> real list list list" where
  "scattering_to_signal_lobato tbl elements fracs N C s_size s_scale =
     (case lookup_params ''ATOMIC_SCATTERING_PARAMS_LOBATO'' tbl elements of
        Inl e \<Rightarrow> Inl e
      | Inr params \<Rightarrow> scattering_curves lobato_term params fracs N C s_size s_scale)"

definition scattering_to_signal_xtables ::
  "scattering_table \<Rightarrow> string list \<Rightarrow> real list \<Rightarrow> grid \<Rightarrow> grid \<Rightarrow> nat \<Rightarrow> real \<Rightarrow>
     py_error + real list list list \<times> real list list list" where
  "scattering_to_signal_xtables tbl elements fracs N C s_size s_scale =
     (case lookup_params ''ATOMIC_SCATTERING_PARAMS'' tbl elements of
        Inl e \<Rightarrow> Inl e
      | Inr params \<Rightarrow> scattering_curves xtables_term params fracs N C s_size s_scale)"

section \<open>Facts about the chunk-index mapper\<close>

lemma length_temp_slice_dim: "length (temp_slice_dim v cs) = length cs"
  by (induction cs arbitrary: v) auto

lemma nth_temp_slice_dim:
  "k < length cs \<Longrightarrow>
   temp_slice_dim v cs ! k = (v + sum_list (take k cs), v + sum_list (take k cs) + cs ! k)"
proof (induction cs arbitrary: v k)
  case Nil
  then show ?case by simp
next
  case (Cons c cs)
  show ?case
  proof (cases k)
    case 0
    then show ?thesis by simp
  next
    case (Suc m)
    with Cons.prems have "m < length cs" by simp
    from Cons.IH [OF this, of "v + c"] Suc show ?thesis by (simp add: add.assoc)
  qed
qed

lemma cover_temp_slice_dim:
  "(\<Union>p \<in> set (temp_slice_dim v cs). {fst p..<snd p}) = {v..<v + sum_list cs}"
proof (induction cs arbitrary: v)
  case Nil
  then show ?case by simp
next
  case (Cons c cs)
  have "{v..<v + c} \<union> {v + c..<v + c + sum_list cs} = {v..<v + (c + sum_list cs)}"
    by auto
  with Cons.IH [of "v + c"] show ?case by simp
qed

lemma sum_take_mono:
  fixes cs :: "nat list"
  assumes "j \<le> k"
  shows "sum_list (take j cs) \<le> sum_list (take k cs)"
proof -
  from assms have "take k cs = take j cs @ take (k - j) (drop j cs)"
    by (metis le_add_diff_inverse take_add)
  then show ?thesis by simp
qed

lemma sum_take_Suc:
  fixes cs :: "nat list"
  shows "k < length cs \<Longrightarrow> sum_list (take (Suc k) cs) = sum_list (take k cs) + cs ! k"
  by (simp add: take_Suc_conv_app_nth)

lemma nth_concat_map_map:
  "i < length xs \<Longrightarrow> j < length ys \<Longrightarrow>
   concat (map (\<lambda>x. map (f x) ys) xs) ! (i * length ys + j) = f (xs ! i) (ys ! j)"
proof (induction xs arbitrary: i)
  case Nil
  then show ?case by simp
next
  case (Cons x xs)
  show ?case
  proof (cases i)
    case 0
    with Cons.prems show ?thesis by (simp add: nth_append)
  next
    case (Suc m)
    with Cons.prems have m: "m < length xs" by simp
    have "length ys + (m * length ys + j) - length ys = m * length ys + j" by simp
    with Cons.IH [OF m Cons.prems(2)] Suc show ?thesis
      by (simp add: nth_append add.assoc)
  qed
qed

lemma length_concat_map_map:
  "length (concat (map (\<lambda>x. map (f x) ys) xs)) = length xs * length ys"
  by (induction xs) auto

lemma slice_list_of_rank3:
  assumes "chunks a = [cs, sx, sy]"
  shows "get_dask_chunk_slice_list a = Inr (slice_list_1d (temp_slice_dim 0 cs))"
  using assms by (simp add: get_dask_chunk_slice_list_def shape_def drop_last2_def)

lemma slice_list_of_rank4:
  assumes "chunks a = [cs0, cs1, sx, sy]"
  shows "get_dask_chunk_slice_list a =
         Inr (slice_list_2d (temp_slice_dim 0 cs0) (temp_slice_dim 0 cs1))"
  using assms by (simp add: get_dask_chunk_slice_list_def shape_def drop_last2_def)

lemma rank_check_rejects:
  assumes "length (shape a) = 2 \<or> 4 < length (shape a)"
  shows "get_dask_chunk_slice_list a = Inl NotImplementedError"
    and "calculate_function_on_dask_array a function return_sig_size = Inl NotImplementedError"
  using assms
  by (auto simp add: get_dask_chunk_slice_list_def calculate_function_on_dask_array_def)

lemma upt_0_2: "[0..<2] = [0, 1]"
  by (simp add: upt_rec)

lemma upt_0_4: "[0..<4] = [0, 1, 2, 3]"
  by (simp add: upt_rec)

text \<open>
  C2. For an array of rank 3, whose one navigation axis is split into the chunk sizes
  \<open>cs\<close>, all positive, the mapper returns one window per chunk. The \<open>k\<close>-th window is
  the half-open range from the sum of the first \<open>k\<close> sizes to that sum plus the \<open>k\<close>-th
  size, with the full range on both signal axes. So every range is non-empty, each range
  ends where the next one starts, an earlier range lies entirely below a later one, and
  together the ranges are exactly the indices from 0 up to the sum of all sizes.
\<close>

theorem slice_list_1d_tiles_axis:
  assumes ch: "chunks a = [cs, sx, sy]" and pos: "\<forall>c \<in> set cs. 0 < c"
  shows "\<exists>ws. get_dask_chunk_slice_list a = Inr ws \<and> length ws = length cs
    \<and> (\<forall>k < length cs. ws ! k =
          [Slice (sum_list (take k cs)) (sum_list (take k cs) + cs ! k), FullSlice, FullSlice])
    \<and> (\<forall>k < length cs. sum_list (take k cs) < sum_list (take k cs) + cs ! k)
    \<and> (\<forall>k. Suc k < length cs \<longrightarrow>
          sum_list (take k cs) + cs ! k = sum_list (take (Suc k) cs))
    \<and> (\<forall>j k. j < k \<and> k < length cs \<longrightarrow>
          (\<forall>x \<in> item_indices (ws ! j ! 0). \<forall>y \<in> item_indices (ws ! k ! 0). x < y))
    \<and> (\<Union>w \<in> set ws. item_indices (w ! 0)) = {0..<sum_list cs}"
proof -
  let ?ws = "slice_list_1d (temp_slice_dim 0 cs)"
  let ?S = "\<lambda>k. sum_list (take k cs)"
  have g: "get_dask_chunk_slice_list a = Inr ?ws" by (rule slice_list_of_rank3 [OF ch])
  have len: "length ?ws = length cs" by (simp add: slice_list_1d_def length_temp_slice_dim)
  have nth: "?ws ! k = [Slice (?S k) (?S k + cs ! k), FullSlice, FullSlice]"
    if "k < length cs" for k
    using that by (simp add: slice_list_1d_def length_temp_slice_dim nth_temp_slice_dim)
  have ne: "?S k < ?S k + cs ! k" if "k < length cs" for k
    using that pos by simp
  have adj: "?S k + cs ! k = ?S (Suc k)" if "Suc k < length cs" for k
    using that by (simp add: sum_take_Suc)
  have ord: "x < y"
    if "j < k" "k < length cs" "x \<in> item_indices (?ws ! j ! 0)" "y \<in> item_indices (?ws ! k ! 0)"
    for j k x y
  proof -
    from that have j: "j < length cs" by simp
    from that(3) nth [OF j] have "x < ?S j + cs ! j" by simp
    then have "x < ?S (Suc j)" using j by (simp add: sum_take_Suc)
    moreover have "?S (Suc j) \<le> ?S k" using that(1) by (intro sum_take_mono) simp
    moreover from that(4) nth [OF that(2)] have "?S k \<le> y" by simp
    ultimately show ?thesis by linarith
  qed
  have cov: "(\<Union>w \<in> set ?ws. item_indices (w ! 0)) = {0..<sum_list cs}"
    using cover_temp_slice_dim [of 0 cs] by (simp add: slice_list_1d_def)
  from g len nth ne adj ord cov show ?thesis by blast
qed

theorem slice_list_1d_tiles_axis_witness:
  "\<exists>ws. get_dask_chunk_slice_list \<lparr>chunks = [[2, 3], [8], [8]], frames = (\<lambda>c. ())\<rparr> = Inr ws
     \<and> length ws = 2
     \<and> ws ! 0 = [Slice 0 2, FullSlice, FullSlice]
     \<and> ws ! 1 = [Slice 2 5, FullSlice, FullSlice]
     \<and> (\<Union>w \<in> set ws. item_indices (w ! 0)) = {0..<5}"
proof -
  let ?a = "\<lparr>chunks = [[2, 3], [8], [8]], frames = (\<lambda>c. ())\<rparr>"
  have ch: "chunks ?a = [[2, 3], [8], [8]]" by simp
  have pos: "\<forall>c \<in> set [2, 3 :: nat]. 0 < c" by simp
  from slice_list_1d_tiles_axis [OF ch pos] obtain ws where
    all: "get_dask_chunk_slice_list ?a = Inr ws \<and> length ws = length [2, 3 :: nat]
    \<and> (\<forall>k < length [2, 3 :: nat]. ws ! k =
          [Slice (sum_list (take k [2, 3])) (sum_list (take k [2, 3]) + [2, 3] ! k),
           FullSlice, FullSlice])
    \<and> (\<forall>k < length [2, 3 :: nat]. sum_list (take k [2, 3 :: nat]) < sum_list (take k [2, 3]) + [2, 3] ! k)
    \<and> (\<forall>k. Suc k < length [2, 3 :: nat] \<longrightarrow>
          sum_list (take k [2, 3 :: nat]) + [2, 3] ! k = sum_list (take (Suc k) [2, 3]))
    \<and> (\<forall>j k. j < k \<and> k < length [2, 3 :: nat] \<longrightarrow>
          (\<forall>x \<in> item_indices (ws ! j ! 0). \<forall>y \<in> item_indices (ws ! k ! 0). x < y))
    \<and> (\<Union>w \<in> set ws. item_indices (w ! 0)) = {0..<sum_list [2, 3]}" ..
  from all have g: "get_dask_chunk_slice_list ?a = Inr ws" ..
  from all have len: "length ws = 2" by simp
  from all have nth: "\<forall>k < length [2, 3 :: nat]. ws ! k =
          [Slice (sum_list (take k [2, 3])) (sum_list (take k [2, 3]) + [2, 3] ! k),
           FullSlice, FullSlice]" by (elim conjE)
  from all have cov: "(\<Union>w \<in> set ws. item_indices (w ! 0)) = {0..<sum_list [2, 3]}"
    by (elim conjE)
  have k0: "(0::nat) < length [2, 3 :: nat]" by simp
  from nth [rule_format, OF k0] have w0: "ws ! 0 = [Slice 0 2, FullSlice, FullSlice]"
    by simp
  have k1: "(1::nat) < length [2, 3 :: nat]" by simp
  from nth [rule_format, OF k1] have w1: "ws ! 1 = [Slice 2 5, FullSlice, FullSlice]"
    by simp
  from cov have c: "(\<Union>w \<in> set ws. item_indices (w ! 0)) = {0..<5}" by simp
  from g len w0 w1 c show ?thesis by (intro exI [of _ ws] conjI)
qed

text \<open>
  C3. For an array of rank 4, whose navigation axes are split into the chunk sizes \<open>cs0\<close>
  (outer) and \<open>cs1\<close> (inner), the mapper returns \<open>length cs0 * length cs1\<close> windows in
  row-major order: the window at position \<open>i * length cs1 + j\<close> pairs the \<open>i\<close>-th outer
  range with the \<open>j\<close>-th inner range, followed by the full range on both signal axes, so
  the windows of one outer range are consecutive and come before those of the next.
\<close>

theorem slice_list_2d_row_major:
  assumes ch: "chunks a = [cs0, cs1, sx, sy]"
  shows "\<exists>ws. get_dask_chunk_slice_list a = Inr ws \<and> length ws = length cs0 * length cs1
    \<and> (\<forall>i < length cs0. \<forall>j < length cs1. ws ! (i * length cs1 + j) =
          [Slice (sum_list (take i cs0)) (sum_list (take i cs0) + cs0 ! i),
           Slice (sum_list (take j cs1)) (sum_list (take j cs1) + cs1 ! j),
           FullSlice, FullSlice])"
proof -
  let ?ws = "slice_list_2d (temp_slice_dim 0 cs0) (temp_slice_dim 0 cs1)"
  have g: "get_dask_chunk_slice_list a = Inr ?ws" by (rule slice_list_of_rank4 [OF ch])
  have len: "length ?ws = length cs0 * length cs1"
    by (simp add: slice_list_2d_def length_concat_map_map length_temp_slice_dim)
  have nth: "?ws ! (i * length cs1 + j) =
          [Slice (sum_list (take i cs0)) (sum_list (take i cs0) + cs0 ! i),
           Slice (sum_list (take j cs1)) (sum_list (take j cs1) + cs1 ! j),
           FullSlice, FullSlice]" if "i < length cs0" "j < length cs1" for i j
    using that
      nth_concat_map_map [of i "temp_slice_dim 0 cs0" j "temp_slice_dim 0 cs1"
        "\<lambda>slice_t0 slice_t1.
           [Slice (fst slice_t0) (snd slice_t0), Slice (fst slice_t1) (snd slice_t1),
            FullSlice, FullSlice]"]
    by (simp add: slice_list_2d_def length_temp_slice_dim nth_temp_slice_dim)
  from g len nth show ?thesis by blast
qed

theorem slice_list_2d_row_major_witness:
  "\<exists>ws. get_dask_chunk_slice_list
           \<lparr>chunks = [[2, 2], [3, 1, 4], [8], [8]], frames = (\<lambda>c. ())\<rparr> = Inr ws
     \<and> length ws = 6
     \<and> ws ! 2 = [Slice 0 2, Slice 4 8, FullSlice, FullSlice]
     \<and> ws ! 3 = [Slice 2 4, Slice 0 3, FullSlice, FullSlice]
     \<and> ws ! 4 = [Slice 2 4, Slice 3 4, FullSlice, FullSlice]"
proof -
  let ?a = "\<lparr>chunks = [[2, 2], [3, 1, 4], [8], [8]], frames = (\<lambda>c. ())\<rparr>"
  have ch: "chunks ?a = [[2, 2], [3, 1, 4], [8], [8]]" by simp
  from slice_list_2d_row_major [OF ch] obtain ws where
    all: "get_dask_chunk_slice_list ?a = Inr ws
    \<and> length ws = length [2, 2 :: nat] * length [3, 1, 4 :: nat]
    \<and> (\<forall>i < length [2, 2 :: nat]. \<forall>j < length [3, 1, 4 :: nat].
          ws ! (i * length [3, 1, 4 :: nat] + j) =
          [Slice (sum_list (take i [2, 2])) (sum_list (take i [2, 2]) + [2, 2] ! i),
           Slice (sum_list (take j [3, 1, 4])) (sum_list (take j [3, 1, 4]) + [3, 1, 4] ! j),
           FullSlice, FullSlice])" ..
  from all have g: "get_dask_chunk_slice_list ?a = Inr ws" ..
  from all have len: "length ws = 6" by simp
  from all have nth: "\<forall>i < length [2, 2 :: nat]. \<forall>j < length [3, 1, 4 :: nat].
          ws ! (i * length [3, 1, 4 :: nat] + j) =
          [Slice (sum_list (take i [2, 2])) (sum_list (take i [2, 2]) + [2, 2] ! i),
           Slice (sum_list (take j [3, 1, 4])) (sum_list (take j [3, 1, 4]) + [3, 1, 4] ! j),
           FullSlice, FullSlice]" by (elim conjE)
  have i0: "(0::nat) < length [2, 2 :: nat]" and i1: "(1::nat) < length [2, 2 :: nat]"
    and j0: "(0::nat) < length [3, 1, 4 :: nat]" and j1: "(1::nat) < length [3, 1, 4 :: nat]"
    and j2: "(2::nat) < length [3, 1, 4 :: nat]" by simp_all
  have e2: "(0::nat) * length [3, 1, 4 :: nat] + 2 = 2"
    and e3: "(1::nat) * length [3, 1, 4 :: nat] + 0 = 3"
    and e4: "(1::nat) * length [3, 1, 4 :: nat] + 1 = 4" by simp_all
  have t2: "take 2 [3, 1, 4 :: nat] = [3, 1]" by (simp add: numeral_2_eq_2)
  from nth [rule_format, OF i0 j2] have w2: "ws ! 2 = [Slice 0 2, Slice 4 8, FullSlice, FullSlice]"
    unfolding e2 by (simp add: t2)
  from nth [rule_format, OF i1 j0] have w3: "ws ! 3 = [Slice 2 4, Slice 0 3, FullSlice, FullSlice]"
    unfolding e3 by simp
  from nth [rule_format, OF i1 j1] have w4: "ws ! 4 = [Slice 2 4, Slice 3 4, FullSlice, FullSlice]"
    unfolding e4 by simp
  from g len w2 w3 w4 show ?thesis by (intro exI [of _ ws] conjI)
qed

section \<open>Facts about the chunked-apply driver\<close>

lemma driver_on_4x4:
  "calculate_function_on_dask_array
     \<lparr>chunks = [[2, 2], [2, 2], [8], [8]], frames = fr\<rparr> (\<lambda>im. Inr (Scalar (g im))) 1
   = Inr (Arr (map (\<lambda>i. Arr (map (\<lambda>j. Elem (g (fr [i, j]))) [0..<4])) [0..<4]))"
  by (simp add: calculate_function_on_dask_array_def get_dask_chunk_slice_list_def shape_def
      drop_last2_def slice_list_2d_def process_chunk_def sliced_shape_def item_len_def
      store_frame_2d_def chunk_frame_def item_origin_def upt_0_4 upt_0_2 numeral_2_eq_2
      numeral_eq_Suc Let_def)

lemma direct_loop_on_4x4:
  "direct_loop_2d \<lparr>chunks = [[2, 2], [2, 2], [8], [8]], frames = fr\<rparr>
     (\<lambda>im. Inr (Scalar (g im))) 4 4
   = Inr (Arr (map (\<lambda>i. Arr (map (\<lambda>j. Elem (g (fr [i, j]))) [0..<4])) [0..<4]))"
  by (simp add: direct_loop_2d_def upt_0_4 numeral_eq_Suc)

text \<open>
  C1. On an array of shape (4, 4, 8, 8) in chunks of (2, 2, 8, 8), with any frames and any
  scalar-returning function \<open>g\<close>, the driver returns the array that the direct loop over
  the 16 navigation coordinates returns, and that array holds \<open>g\<close> of the frame at
  \<open>(i, j)\<close> in position \<open>(i, j)\<close>.
\<close>

theorem driver_equals_direct_loop_4x4:
  "calculate_function_on_dask_array
     \<lparr>chunks = [[2, 2], [2, 2], [8], [8]], frames = fr\<rparr> (\<lambda>im. Inr (Scalar (g im))) 1
   = direct_loop_2d \<lparr>chunks = [[2, 2], [2, 2], [8], [8]], frames = fr\<rparr>
       (\<lambda>im. Inr (Scalar (g im))) 4 4
   \<and> direct_loop_2d \<lparr>chunks = [[2, 2], [2, 2], [8], [8]], frames = fr\<rparr>
       (\<lambda>im. Inr (Scalar (g im))) 4 4
     = Inr (Arr (map (\<lambda>i. Arr (map (\<lambda>j. Elem (g (fr [i, j]))) [0..<4])) [0..<4]))"
  by (simp only: driver_on_4x4 direct_loop_on_4x4)

text \<open>
  C4. The claim is that every rank other than 3 and 4 is rejected. Ranks 2 and above 4 are
  (\<open>rank_check_rejects\<close>), but the check lets ranks 0 and 1 through: on the
  one-dimensional array of shape (5,) the mapper returns the empty list and the driver
  returns the 0-d array of zeros, and neither raises.
\<close>

theorem rank_one_not_rejected:
  "get_dask_chunk_slice_list \<lparr>chunks = [[5]], frames = (\<lambda>c. ())\<rparr> = Inr []
   \<and> calculate_function_on_dask_array \<lparr>chunks = [[5]], frames = (\<lambda>c. ())\<rparr>
       (\<lambda>im. Inr (Scalar 1)) 1 = Inr (Elem (0::real))"
  by (simp add: calculate_function_on_dask_array_def get_dask_chunk_slice_list_def shape_def
      drop_last2_def)

text \<open>
  C9. The mapper raises exactly when the rank is 2 or above 4. For an array of rank 1 it
  returns the empty window list, and the driver returns its zero-initialised output array
  (0-d for \<open>return_sig_size = 1\<close>, a row of \<open>return_sig_size\<close> zeros otherwise) whatever
  the per-frame function is, also one that raises on every frame: the function is never
  called.
\<close>

theorem rank_one_accepted:
  "((\<exists>e. get_dask_chunk_slice_list b = Inl e) \<longleftrightarrow> length (shape b) = 2 \<or> 4 < length (shape b))
   \<and> (length (shape a) = 1 \<longrightarrow>
        get_dask_chunk_slice_list a = Inr []
        \<and> calculate_function_on_dask_array a function return_sig_size =
            Inr (if return_sig_size = 1 then np_zeros [] else np_zeros [return_sig_size]))"
  by (simp add: calculate_function_on_dask_array_def get_dask_chunk_slice_list_def shape_def
      drop_last2_def Let_def)

theorem rank_one_accepted_witness:
  "get_dask_chunk_slice_list \<lparr>chunks = [[3, 4]], frames = (\<lambda>c. ())\<rparr> = Inr []
   \<and> calculate_function_on_dask_array \<lparr>chunks = [[3, 4]], frames = (\<lambda>c. ())\<rparr>
       (\<lambda>im. Inl ValueError) 2 = Inr (Arr [Elem (0::real), Elem 0])"
proof -
  let ?a = "\<lparr>chunks = [[3, 4]], frames = (\<lambda>c. ())\<rparr>"
  have r: "length (shape ?a) = 1" by (simp add: shape_def)
  from rank_one_accepted [of ?a ?a "\<lambda>im. Inl ValueError" 2] r
  have "get_dask_chunk_slice_list ?a = Inr []
        \<and> calculate_function_on_dask_array ?a (\<lambda>im. Inl ValueError) 2 =
            Inr (if (2::nat) = 1 then np_zeros [] else (np_zeros [2] :: real ndarray))"
    by blast
  then show ?thesis by (simp add: numeral_2_eq_2)
qed

section \<open>Facts about the per-pixel transforms\<close>

lemma length_scattering_axis: "length (scattering_axis s_scale s_size) = s_size"
  by (simp add: scattering_axis_def)

lemma np_max_nonempty: "xs \<noteq> [] \<Longrightarrow> np_max amax xs = Inr (amax xs)"
  by (simp add: np_max_def)

lemma py_slice_from_nonneg:
  "0 \<le> i \<Longrightarrow> i < int (length xs) \<Longrightarrow> py_slice_from xs i = drop (nat i) xs"
  by (simp add: py_slice_from_def)

lemma py_slice_from_neg:
  "i < 0 \<Longrightarrow> - i \<le> int (length xs) \<Longrightarrow>
   py_slice_from xs i = drop (length xs - nat (- i)) xs"
proof -
  assume a: "i < 0" "- i \<le> int (length xs)"
  then have "nat (int (length xs) + i) = length xs - nat (- i)" by linarith
  with a show ?thesis by (simp add: py_slice_from_def max_def Let_def)
qed

lemma py_slice_from_far_neg:
  "i < - int (length xs) \<Longrightarrow> py_slice_from xs i = xs"
  by (simp add: py_slice_from_def max_def Let_def)

lemma length_scattering_axis_f64: "length (scattering_axis_f64 rnd s_scale s_size) = s_size"
  by (simp add: scattering_axis_f64_def)

lemma length_lorch_damping_term:
  "length (lorch_damping_term rnd sn delta s_scale s_size) = s_size"
  by (simp add: lorch_damping_term_def length_scattering_axis_f64)

lemma nth_lorch_damping_term:
  "k < s_size \<Longrightarrow>
   lorch_damping_term rnd sn delta s_scale s_size ! k =
     nan_to_num (fdiv rnd (fsin sn (fmul rnd delta (fmul rnd s_scale (Num (real k)))))
                          (fmul rnd delta (fmul rnd s_scale (Num (real k)))))"
  by (simp add: lorch_damping_term_def scattering_axis_f64_def)

text \<open>A product with a factor that is a zero or \<^verbatim>\<open>nan\<close> is a zero or \<^verbatim>\<open>nan\<close>.\<close>

lemma fmul_zero_or_nan:
  assumes "is_zero y \<or> is_nan y"
  shows "is_zero (fmul rnd x y) \<or> is_nan (fmul rnd x y)"
  using assms by (cases x; cases y) (auto simp add: fmul_def signed_zero_def)

text \<open>
  The quotient \<open>sin p / p\<close> is \<^verbatim>\<open>nan\<close> when \<open>p\<close> is a zero, an infinity or
  \<^verbatim>\<open>nan\<close>, and \<open>nan_to_num\<close> makes it \<^verbatim>\<open>0.0\<close>.
\<close>

lemma sinc_degenerate:
  assumes "is_zero p \<or> is_inf p \<or> is_nan p"
  shows "nan_to_num (fdiv rnd (fsin sn p) p) = Num 0"
  using assms by (cases p) (auto simp add: fdiv_def fsin_def)

lemma nan_to_num_finite: "\<not> is_nan q \<Longrightarrow> \<not> is_inf q \<Longrightarrow> nan_to_num q = q"
  by (cases q) simp_all

lemma np_multiply_f64_same_length:
  "length xs = length ys \<Longrightarrow> np_multiply_f64 rnd xs ys = Inr (map2 (fmul rnd) xs ys)"
  by (simp add: np_multiply_f64_def)

lemma damp_ri_lorch_mismatch:
  "\<not> is_zero s_max \<Longrightarrow> length z \<noteq> s_size \<Longrightarrow> length z \<noteq> 1 \<Longrightarrow> s_size \<noteq> 1 \<Longrightarrow>
   damp_ri_lorch rnd sn z s_max s_scale s_size = Inl ValueError"
  by (simp add: damp_ri_lorch_def np_multiply_f64_def length_lorch_damping_term)

lemma sin_half_np_pi_pos: "0 < sin (884279719003555 / 2 ^ 48 * (1 / 2) :: real)"
proof -
  have "(884279719003555 / 2 ^ 48 * (1 / 2) :: real) < 2" by simp
  also have "(2::real) \<le> pi" by (rule pi_ge_two)
  finally have "(884279719003555 / 2 ^ 48 * (1 / 2) :: real) < pi" .
  moreover have "(0::real) < 884279719003555 / 2 ^ 48 * (1 / 2)" by simp
  ultimately show ?thesis by (rule sin_gt_zero [rotated])
qed

text \<open>
  C5. The claim is that \<^verbatim>\<open>damp_ri_low_q_region_erfc\<close> returns \<open>z\<close> times
  \<open>(erf(scale s - offset) + 1) / 2\<close> without raising. The module never binds the name
  \<^verbatim>\<open>special\<close> that line 284 reads, so every call raises NameError, whatever the
  arguments and whatever \<^verbatim>\<open>special.erf\<close> would compute.
\<close>

theorem damp_ri_low_q_region_erfc_raises_NameError:
  "damp_ri_low_q_region_erfc erf z scale offset s_scale s_size = Inl NameError"
  by (simp add: damp_ri_low_q_region_erfc_def resolve_global_def pdf_utils_globals_def)

text \<open>
  C6, as stated for every input array: it fails for an array whose length is not
  \<open>s_size\<close>. With \<open>z\<close> of length 3 and \<open>s_size = 2\<close> the product of \<open>z\<close> and the
  damping term cannot be broadcast and the call raises ValueError. The rounding plays no
  part in this (\<open>damp_ri_lorch_mismatch\<close>); the instance below keeps results exact.
\<close>

theorem damp_ri_lorch_length_mismatch:
  "damp_ri_lorch no_rounding exact_sin [Num 1, Num 2, Num 3] (Num 1) (Num 1) 2 = Inl ValueError"
  by (simp add: damp_ri_lorch_def np_multiply_f64_def length_lorch_damping_term)

text \<open>
  C6, amended. Take an array \<open>z\<close> of length \<open>s_size\<close>, with \<open>s_size\<close> positive, and an
  \<open>s_max\<close> that is not zero (every positive one), and any \<open>s_scale\<close>. Whatever the
  rounding and the sine do, Lorch damping returns an array of the length of \<open>z\<close>. Its
  first element is \<open>z[0]\<close> times \<^verbatim>\<open>+0.0\<close>: the damping factor at \<open>s = 0\<close> is exactly 0,
  not \<^verbatim>\<open>nan\<close>. At every other element \<open>k\<close>, let \<open>p\<close> be the float64 product
  \<^verbatim>\<open>(np.pi / s_max) * (s_scale * k)\<close> and \<open>q\<close> the float64 quotient \<open>sin p / p\<close>. The
  result is \<open>z[k]\<close> times \<open>q\<close> when \<open>q\<close> is finite; it is \<open>z[k]\<close> times 0 when \<open>p\<close> is a
  zero (the product underflowed), an infinity or \<^verbatim>\<open>nan\<close>; and it is \<open>z[k]\<close> times the
  largest finite float64 of the sign of \<open>q\<close> when \<open>q\<close> is an infinity.
\<close>

theorem damp_ri_lorch_matching_length:
  assumes len: "length z = s_size" and nz: "\<not> is_zero s_max" and pos: "0 < s_size"
  shows "\<exists>r. damp_ri_lorch rnd sn z s_max s_scale s_size = Inr r \<and> length r = length z
    \<and> r ! 0 = fmul rnd (z ! 0) (Num 0)
    \<and> (\<forall>k. 0 < k \<and> k < s_size \<longrightarrow>
         (let p = fmul rnd (fdiv rnd np_pi s_max) (fmul rnd s_scale (Num (real k)));
              q = fdiv rnd (fsin sn p) p
          in (\<not> is_nan q \<and> \<not> is_inf q \<longrightarrow> r ! k = fmul rnd (z ! k) q)
           \<and> (is_zero p \<or> is_inf p \<or> is_nan p \<longrightarrow> r ! k = fmul rnd (z ! k) (Num 0))
           \<and> (is_inf q \<longrightarrow>
                r ! k = fmul rnd (z ! k)
                          (Num (if sign_bit q then - float64_max else float64_max)))))"
proof -
  let ?d = "fdiv rnd np_pi s_max"
  let ?t = "lorch_damping_term rnd sn ?d s_scale s_size"
  let ?r = "map2 (fmul rnd) z ?t"
  let ?p = "\<lambda>k. fmul rnd ?d (fmul rnd s_scale (Num (real k)))"
  let ?q = "\<lambda>k. fdiv rnd (fsin sn (?p k)) (?p k)"
  have lt: "length ?t = length z" using len by (simp add: length_lorch_damping_term)
  have run: "damp_ri_lorch rnd sn z s_max s_scale s_size = Inr ?r"
    using nz lt by (simp add: damp_ri_lorch_def np_multiply_f64_same_length)
  have lr: "length ?r = length z" using lt by simp
  have rk: "?r ! k = fmul rnd (z ! k) (nan_to_num (?q k))" if "k < s_size" for k
    using that len lt by (simp add: nth_lorch_damping_term)
  have "is_zero (fmul rnd s_scale (Num (real (0::nat)))) \<or> is_nan (fmul rnd s_scale (Num (real (0::nat))))"
    by (rule fmul_zero_or_nan) simp
  then have "is_zero (?p 0) \<or> is_nan (?p 0)" by (rule fmul_zero_or_nan)
  then have "nan_to_num (?q 0) = Num 0" by (intro sinc_degenerate) blast
  with rk [OF pos] have r0: "?r ! 0 = fmul rnd (z ! 0) (Num 0)" by simp
  have rest: "(\<not> is_nan (?q k) \<and> \<not> is_inf (?q k) \<longrightarrow> ?r ! k = fmul rnd (z ! k) (?q k))
           \<and> (is_zero (?p k) \<or> is_inf (?p k) \<or> is_nan (?p k) \<longrightarrow>
                ?r ! k = fmul rnd (z ! k) (Num 0))
           \<and> (is_inf (?q k) \<longrightarrow>
                ?r ! k = fmul rnd (z ! k)
                          (Num (if sign_bit (?q k) then - float64_max else float64_max)))"
    if "0 < k \<and> k < s_size" for k
  proof -
    from that have k: "k < s_size" by simp
    have a: "?r ! k = fmul rnd (z ! k) (?q k)" if "\<not> is_nan (?q k)" "\<not> is_inf (?q k)"
      using rk [OF k] that by (simp add: nan_to_num_finite)
    have b: "?r ! k = fmul rnd (z ! k) (Num 0)"
      if "is_zero (?p k) \<or> is_inf (?p k) \<or> is_nan (?p k)"
      using rk [OF k] sinc_degenerate [OF that] by simp
    have c: "?r ! k = fmul rnd (z ! k) (Num (if sign_bit (?q k) then - float64_max else float64_max))"
      if "is_inf (?q k)"
      using rk [OF k] that by (cases "?q k") simp_all
    from a b c show ?thesis by blast
  qed
  from run lr r0 rest show ?thesis by (simp add: Let_def)
qed

theorem damp_ri_lorch_matching_length_witness:
  "\<exists>r. damp_ri_lorch no_rounding exact_sin [Num 3, Num 5] (Num 1) (Num (1 / 2)) 2 = Inr r
     \<and> r ! 0 = Num 0
     \<and> r ! 1 = Num (5 * (sin (884279719003555 / 2 ^ 48 * (1 / 2))
                          / (884279719003555 / 2 ^ 48 * (1 / 2))))"
proof -
  let ?v = "884279719003555 / 2 ^ 48 * (1 / 2) :: real"
  have h: "length [Num 3, Num 5] = 2" "\<not> is_zero (Num 1)" "(0::nat) < 2" by simp_all
  from damp_ri_lorch_matching_length [OF h, of no_rounding exact_sin "Num (1 / 2)"]
  obtain r where run: "damp_ri_lorch no_rounding exact_sin [Num 3, Num 5] (Num 1) (Num (1 / 2)) 2 = Inr r"
    and r0: "r ! 0 = fmul no_rounding ([Num 3, Num 5] ! 0) (Num 0)"
    and rk: "\<forall>k. 0 < k \<and> k < 2 \<longrightarrow>
         (let p = fmul no_rounding (fdiv no_rounding np_pi (Num 1))
                    (fmul no_rounding (Num (1 / 2)) (Num (real k)));
              q = fdiv no_rounding (fsin exact_sin p) p
          in (\<not> is_nan q \<and> \<not> is_inf q \<longrightarrow> r ! k = fmul no_rounding ([Num 3, Num 5] ! k) q)
           \<and> (is_zero p \<or> is_inf p \<or> is_nan p \<longrightarrow>
                r ! k = fmul no_rounding ([Num 3, Num 5] ! k) (Num 0))
           \<and> (is_inf q \<longrightarrow>
                r ! k = fmul no_rounding ([Num 3, Num 5] ! k)
                          (Num (if sign_bit q then - float64_max else float64_max))))"
    by blast
  have p: "fmul no_rounding (fdiv no_rounding np_pi (Num 1))
             (fmul no_rounding (Num (1 / 2)) (Num (real (1::nat)))) = Num ?v"
    by (simp add: fmul_def fdiv_def np_pi_def no_rounding_def)
  have s: "sin ?v \<noteq> 0" using sin_half_np_pi_pos by simp
  have q: "fdiv no_rounding (fsin exact_sin (Num ?v)) (Num ?v) = Num (sin ?v / ?v)"
    using s by (simp add: fdiv_def fsin_def exact_sin_def no_rounding_def)
  have k1: "(0::nat) < 1 \<and> (1::nat) < 2" by simp
  note rk1 = rk [rule_format, OF k1, unfolded Let_def, unfolded p q]
  from rk1 have "r ! 1 = fmul no_rounding (Num 5) (Num (sin ?v / ?v))"
    by simp
  then have r1: "r ! 1 = Num (5 * (sin ?v / ?v))"
    using s by (simp add: fmul_def no_rounding_def)
  from r0 have r0': "r ! 0 = Num 0" by (simp add: fmul_def signed_zero_def)
  from run r0' r1 show ?thesis by blast
qed

text \<open>
  C8. Whenever the sub-range \<^verbatim>\<open>z[index_min:]\<close> is not empty, the function returns
  \<open>z\<close> with every element divided by the maximum of that sub-range, where the maximum
  and the quotient are the ones NumPy computes. The sub-range is not empty in three
  cases: for \<open>0 \<le> index_min < len(z)\<close> it is \<open>z\<close> without its first \<open>index_min\<close>
  elements; for \<open>-len(z) \<le> index_min < 0\<close> it is the last \<open>-index_min\<close> elements; for
  \<open>index_min < -len(z)\<close> and \<open>z\<close> not empty it is all of \<open>z\<close>. The witness holds the
  example of the claim, \<open>[1, 2, 10, 4, 3]\<close> with \<open>index_min = 2\<close>, where every element is
  divided by 10 whatever the division rounds to, an array whose largest element lies
  before \<open>index_min\<close>, and the two cases of a negative index.
\<close>

theorem normalise_pdf_signal_to_max_divides_by_max:
  "(0 \<le> index_min \<and> index_min < int (length z) \<longrightarrow>
      normalise_pdf_signal_to_max amax np_divide z index_min =
        Inr (map (\<lambda>x. np_divide x (amax (drop (nat index_min) z))) z))
   \<and> (index_min < 0 \<and> - index_min \<le> int (length z) \<longrightarrow>
      normalise_pdf_signal_to_max amax np_divide z index_min =
        Inr (map (\<lambda>x. np_divide x (amax (drop (length z - nat (- index_min)) z))) z))
   \<and> (index_min < - int (length z) \<and> z \<noteq> [] \<longrightarrow>
      normalise_pdf_signal_to_max amax np_divide z index_min =
        Inr (map (\<lambda>x. np_divide x (amax z)) z))"
proof (intro conjI impI)
  assume a: "0 \<le> index_min \<and> index_min < int (length z)"
  then have "py_slice_from z index_min = drop (nat index_min) z"
    by (simp add: py_slice_from_nonneg)
  moreover from a have "nat index_min < length z" by linarith
  then have "drop (nat index_min) z \<noteq> []" by simp
  ultimately show "normalise_pdf_signal_to_max amax np_divide z index_min =
        Inr (map (\<lambda>x. np_divide x (amax (drop (nat index_min) z))) z)"
    by (simp add: normalise_pdf_signal_to_max_def np_max_nonempty)
next
  assume a: "index_min < 0 \<and> - index_min \<le> int (length z)"
  then have "py_slice_from z index_min = drop (length z - nat (- index_min)) z"
    by (simp add: py_slice_from_neg)
  moreover from a have "0 < nat (- index_min)" "0 < length z" by linarith+
  then have "length z - nat (- index_min) < length z" by linarith
  then have "drop (length z - nat (- index_min)) z \<noteq> []" by simp
  ultimately show "normalise_pdf_signal_to_max amax np_divide z index_min =
        Inr (map (\<lambda>x. np_divide x (amax (drop (length z - nat (- index_min)) z))) z)"
    by (simp add: normalise_pdf_signal_to_max_def np_max_nonempty)
next
  assume a: "index_min < - int (length z) \<and> z \<noteq> []"
  then have "py_slice_from z index_min = z" by (simp add: py_slice_from_far_neg)
  with a show "normalise_pdf_signal_to_max amax np_divide z index_min =
        Inr (map (\<lambda>x. np_divide x (amax z)) z)"
    by (simp add: normalise_pdf_signal_to_max_def np_max_nonempty)
qed

theorem normalise_pdf_signal_to_max_example:
  "\<forall>np_divide :: real \<Rightarrow> real \<Rightarrow> 'q.
     normalise_pdf_signal_to_max (\<lambda>xs. Max (set xs)) np_divide [1, 2, 10, 4, 3] 2 =
       Inr [np_divide 1 10, np_divide 2 10, np_divide 10 10, np_divide 4 10, np_divide 3 10]
   \<and> normalise_pdf_signal_to_max (\<lambda>xs. Max (set xs)) np_divide [100, 2, 10, 4, 3] 2 =
       Inr [np_divide 100 10, np_divide 2 10, np_divide 10 10, np_divide 4 10, np_divide 3 10]
   \<and> normalise_pdf_signal_to_max (\<lambda>xs. Max (set xs)) np_divide [9, 1, 2] (- 2) =
       Inr [np_divide 9 2, np_divide 1 2, np_divide 2 2]
   \<and> normalise_pdf_signal_to_max (\<lambda>xs. Max (set xs)) np_divide [9, 1, 2] (- 5) =
       Inr [np_divide 9 9, np_divide 1 9, np_divide 2 9]"
proof (intro allI conjI)
  fix np_divide :: "real \<Rightarrow> real \<Rightarrow> 'q"
  let ?amax = "\<lambda>xs :: real list. Max (set xs)"
  note t = normalise_pdf_signal_to_max_divides_by_max
  have d2: "drop 2 [1, 2, 10, 4, 3 :: real] = [10, 4, 3]"
    and d2': "drop 2 [100, 2, 10, 4, 3 :: real] = [10, 4, 3]" by (simp_all add: numeral_2_eq_2)
  have m1: "Max (set [10, 4, 3 :: real]) = 10" and m2: "Max (set [1, 2 :: real]) = 2"
    and m3: "Max (set [9, 1, 2 :: real]) = 9" by simp_all
  have a1: "(0::int) \<le> 2 \<and> (2::int) < int (length [1, 2, 10, 4, 3 :: real])" by simp
  from t [of 2 "[1, 2, 10, 4, 3]" ?amax np_divide] a1
  have "normalise_pdf_signal_to_max ?amax np_divide [1, 2, 10, 4, 3] 2 =
        Inr (map (\<lambda>x. np_divide x (?amax (drop (nat 2) [1, 2, 10, 4, 3]))) [1, 2, 10, 4, 3])"
    by blast
  then show "normalise_pdf_signal_to_max ?amax np_divide [1, 2, 10, 4, 3] 2 =
       Inr [np_divide 1 10, np_divide 2 10, np_divide 10 10, np_divide 4 10, np_divide 3 10]"
    by (simp add: d2 m1)
  have a2: "(0::int) \<le> 2 \<and> (2::int) < int (length [100, 2, 10, 4, 3 :: real])" by simp
  from t [of 2 "[100, 2, 10, 4, 3]" ?amax np_divide] a2
  have "normalise_pdf_signal_to_max ?amax np_divide [100, 2, 10, 4, 3] 2 =
        Inr (map (\<lambda>x. np_divide x (?amax (drop (nat 2) [100, 2, 10, 4, 3]))) [100, 2, 10, 4, 3])"
    by blast
  then show "normalise_pdf_signal_to_max ?amax np_divide [100, 2, 10, 4, 3] 2 =
       Inr [np_divide 100 10, np_divide 2 10, np_divide 10 10, np_divide 4 10, np_divide 3 10]"
    by (simp add: d2' m1)
  have a3: "(- 2 :: int) < 0 \<and> - (- 2 :: int) \<le> int (length [9, 1, 2 :: real])" by simp
  from t [of "- 2" "[9, 1, 2]" ?amax np_divide] a3
  have "normalise_pdf_signal_to_max ?amax np_divide [9, 1, 2] (- 2) =
        Inr (map (\<lambda>x. np_divide x (?amax (drop (length [9, 1, 2 :: real] - nat (- (- 2))) [9, 1, 2])))
               [9, 1, 2])"
    by blast
  then show "normalise_pdf_signal_to_max ?amax np_divide [9, 1, 2] (- 2) =
       Inr [np_divide 9 2, np_divide 1 2, np_divide 2 2]"
    by (simp add: m2)
  have a4: "(- 5 :: int) < - int (length [9, 1, 2 :: real]) \<and> [9, 1, 2 :: real] \<noteq> []" by simp
  from t [of "- 5" "[9, 1, 2]" ?amax np_divide] a4
  have "normalise_pdf_signal_to_max ?amax np_divide [9, 1, 2] (- 5) =
        Inr (map (\<lambda>x. np_divide x (?amax [9, 1, 2])) [9, 1, 2])"
    by blast
  then show "normalise_pdf_signal_to_max ?amax np_divide [9, 1, 2] (- 5) =
       Inr [np_divide 9 9, np_divide 1 9, np_divide 2 9]"
    by (simp add: m3)
qed

text \<open>
  C10. When \<open>index_min\<close> is at least the length of \<open>z\<close> the function raises ValueError,
  the maximum of an empty sub-range. It returns a result exactly when
  \<^verbatim>\<open>z[index_min:]\<close> is not empty, and raises ValueError whenever it is empty.
\<close>

theorem normalise_pdf_signal_to_max_empty_range:
  "(int (length z) \<le> index_min \<longrightarrow>
      normalise_pdf_signal_to_max amax np_divide z index_min = Inl ValueError)
   \<and> ((\<exists>r. normalise_pdf_signal_to_max amax np_divide z index_min = Inr r) \<longleftrightarrow>
        py_slice_from z index_min \<noteq> [])
   \<and> (py_slice_from z index_min = [] \<longrightarrow>
        normalise_pdf_signal_to_max amax np_divide z index_min = Inl ValueError)"
  by (cases "py_slice_from z index_min")
     (auto simp add: normalise_pdf_signal_to_max_def np_max_def py_slice_from_def Let_def)

theorem normalise_pdf_signal_to_max_empty_range_witness:
  "normalise_pdf_signal_to_max (\<lambda>xs. Max (set xs)) (/) [1, 2, 3 :: real] 3 = Inl ValueError
   \<and> normalise_pdf_signal_to_max (\<lambda>xs. Max (set xs)) (/) [1, 2, 3 :: real] 7 = Inl ValueError
   \<and> (\<exists>r. normalise_pdf_signal_to_max (\<lambda>xs. Max (set xs)) (/) [1, 2, 3 :: real] 2 = Inr r)"
proof -
  let ?amax = "\<lambda>xs :: real list. Max (set xs)"
  let ?dv = "(/) :: real \<Rightarrow> real \<Rightarrow> real"
  have a: "int (length [1, 2, 3 :: real]) \<le> 3" and b: "int (length [1, 2, 3 :: real]) \<le> 7"
    by simp_all
  have c: "py_slice_from [1, 2, 3 :: real] 2 \<noteq> []" by (simp add: py_slice_from_def)
  from normalise_pdf_signal_to_max_empty_range [of "[1, 2, 3]" 3 ?amax ?dv] a
  have 1: "normalise_pdf_signal_to_max ?amax ?dv [1, 2, 3] 3 = Inl ValueError" by blast
  from normalise_pdf_signal_to_max_empty_range [of "[1, 2, 3]" 7 ?amax ?dv] b
  have 2: "normalise_pdf_signal_to_max ?amax ?dv [1, 2, 3] 7 = Inl ValueError" by blast
  from normalise_pdf_signal_to_max_empty_range [of "[1, 2, 3]" 2 ?amax ?dv] c
  have 3: "\<exists>r. normalise_pdf_signal_to_max ?amax ?dv [1, 2, 3] 2 = Inr r" by blast
  from 1 2 3 show ?thesis by (intro conjI)
qed

section \<open>Facts about the scattering-curve synthesizer\<close>

lemma fold_add_terms:
  assumes "length acc = length x"
  shows "length (fold (\<lambda>p fi. map2 (+) fi (map (term p) x)) element acc) = length x
       \<and> (\<forall>k < length x. fold (\<lambda>p fi. map2 (+) fi (map (term p) x)) element acc ! k =
             acc ! k + (\<Sum>p\<leftarrow>element. term p (x ! k)))"
  using assms
proof (induction element arbitrary: acc)
  case Nil
  then show ?case by simp
next
  case (Cons p ps)
  let ?acc = "map2 (+) acc (map (term p) x)"
  have l: "length ?acc = length x" using Cons.prems by simp
  have n: "?acc ! k = acc ! k + term p (x ! k)" if "k < length x" for k
    using that Cons.prems by simp
  from Cons.IH [OF l] n show ?case by (simp add: add.assoc)
qed

lemma base_curve_length: "length (base_curve term element x) = length x"
  using fold_add_terms [of "replicate (length x) 0" x "term" element]
  by (simp add: base_curve_def)

lemma base_curve_nth:
  "k < length x \<Longrightarrow> base_curve term element x ! k = (\<Sum>p\<leftarrow>element. term p (x ! k))"
  using fold_add_terms [of "replicate (length x) 0" x "term" element]
  by (simp add: base_curve_def)

lemma accumulate_curves_sums:
  assumes "i + length params \<le> length fracs"
    and "length (fst acc) = length x" and "length (snd acc) = length x"
  shows "\<exists>ssq sqs. accumulate_curves term x fracs i params acc = Inr (ssq, sqs)
      \<and> length ssq = length x \<and> length sqs = length x
      \<and> (\<forall>k < length x.
            ssq ! k = fst acc ! k
              + (\<Sum>n < length params. (base_curve term (params ! n) x ! k)\<^sup>2 * fracs ! (i + n))
          \<and> sqs ! k = snd acc ! k
              + (\<Sum>n < length params. base_curve term (params ! n) x ! k * fracs ! (i + n)))"
  using assms
proof (induction params arbitrary: i acc)
  case Nil
  then show ?case by (cases acc) simp
next
  case (Cons element rest)
  let ?fi = "base_curve term element x"
  let ?acc = "(map2 (+) (fst acc) (map (\<lambda>v. v\<^sup>2 * fracs ! i) ?fi),
               map2 (+) (snd acc) (map (\<lambda>v. v * fracs ! i) ?fi))"
  have i: "i < length fracs" and i': "Suc i + length rest \<le> length fracs"
    using Cons.prems(1) by simp_all
  have l1: "length (fst ?acc) = length x" and l2: "length (snd ?acc) = length x"
    using Cons.prems(2,3) by (simp_all add: base_curve_length)
  from Cons.IH [OF i' l1 l2] obtain ssq sqs where
    run: "accumulate_curves term x fracs (Suc i) rest ?acc = Inr (ssq, sqs)"
    and len: "length ssq = length x" "length sqs = length x"
    and val: "\<forall>k < length x.
            ssq ! k = fst ?acc ! k
              + (\<Sum>n < length rest. (base_curve term (rest ! n) x ! k)\<^sup>2 * fracs ! (Suc i + n))
          \<and> sqs ! k = snd ?acc ! k
              + (\<Sum>n < length rest. base_curve term (rest ! n) x ! k * fracs ! (Suc i + n))"
    by blast
  have step: "accumulate_curves term x fracs i (element # rest) acc = Inr (ssq, sqs)"
    using i run by (simp add: Let_def)
  have "ssq ! k = fst acc ! k
              + (\<Sum>n < length (element # rest).
                   (base_curve term ((element # rest) ! n) x ! k)\<^sup>2 * fracs ! (i + n))
          \<and> sqs ! k = snd acc ! k
              + (\<Sum>n < length (element # rest).
                   base_curve term ((element # rest) ! n) x ! k * fracs ! (i + n))"
    if k: "k < length x" for k
  proof -
    have a1: "fst ?acc ! k = fst acc ! k + (?fi ! k)\<^sup>2 * fracs ! i"
      using k Cons.prems(2) by (simp add: base_curve_length)
    have a2: "snd ?acc ! k = snd acc ! k + ?fi ! k * fracs ! i"
      using k Cons.prems(3) by (simp add: base_curve_length)
    from val k a1 a2 show ?thesis
      by (simp add: sum.lessThan_Suc_shift add.assoc del: sum.lessThan_Suc)
  qed
  with step len show ?case by blast
qed

text \<open>
  What lines 92 to 113 compute once the parameters of the elements are at hand, with at
  least one fraction per element and a \<open>C\<close> of as many values as \<open>N\<close>: at pixel
  \<open>(i, j)\<close> and axis position \<open>k\<close>, with \<open>s = s_scale * k\<close> and \<open>f\<^sub>n(s)\<close> the sum of the
  terms of element \<open>n\<close>, the first array holds \<open>N \<Sum>\<^sub>n f\<^sub>n(s)\<^sup>2 frac\<^sub>n + C\<close> and the second
  \<open>N \<Sum>\<^sub>n f\<^sub>n(s) frac\<^sub>n\<close>.
\<close>

lemma scattering_curves_formula:
  assumes fr: "length params \<le> length fracs"
    and sz: "dim0 C * dim1 C = dim0 N * dim1 N"
  shows "\<exists>signal square_sum.
      scattering_curves term params fracs N C s_size s_scale = Inr (signal, square_sum)
    \<and> (\<forall>i < dim0 N. \<forall>j < dim1 N. \<forall>k < s_size.
         signal ! i ! j ! k =
           data_at N i j *
             (\<Sum>n < length params.
                (\<Sum>p\<leftarrow>params ! n. term p (s_scale * real k))\<^sup>2 * fracs ! n)
           + data_at C ((i * dim1 N + j) div dim1 C) ((i * dim1 N + j) mod dim1 C)
       \<and> square_sum ! i ! j ! k =
           data_at N i j *
             (\<Sum>n < length params.
                (\<Sum>p\<leftarrow>params ! n. term p (s_scale * real k)) * fracs ! n))"
proof -
  let ?x = "scattering_axis s_scale s_size"
  have lx: "length ?x = s_size" by (rule length_scattering_axis)
  from fr have "0 + length params \<le> length fracs" by simp
  from accumulate_curves_sums [OF this, of "(replicate s_size 0, replicate s_size 0)" ?x "term"]
  obtain ssq sqs where
    run: "accumulate_curves term ?x fracs 0 params (replicate s_size 0, replicate s_size 0)
            = Inr (ssq, sqs)"
    and len: "length ssq = s_size" "length sqs = s_size"
    and val: "\<forall>k < s_size.
            ssq ! k = (\<Sum>n < length params. (base_curve term (params ! n) ?x ! k)\<^sup>2 * fracs ! n)
          \<and> sqs ! k = (\<Sum>n < length params. base_curve term (params ! n) ?x ! k * fracs ! n)"
    by (auto simp add: lx)
  have bc: "base_curve term el ?x ! k = (\<Sum>p\<leftarrow>el. term p (s_scale * real k))"
    if "k < s_size" for k el
    using that by (simp add: base_curve_nth lx) (simp add: scattering_axis_def)
  have rN: "reshape_to N (dim0 N) (dim1 N) =
      Inr (\<lambda>i j. data_at N ((i * dim1 N + j) div dim1 N) ((i * dim1 N + j) mod dim1 N))"
    by (simp add: reshape_to_def)
  have rC: "reshape_to C (dim0 N) (dim1 N) =
      Inr (\<lambda>i j. data_at C ((i * dim1 N + j) div dim1 C) ((i * dim1 N + j) mod dim1 C))"
    using sz by (simp add: reshape_to_def)
  let ?sig = "map (\<lambda>i. map (\<lambda>j. map (\<lambda>v.
        data_at N ((i * dim1 N + j) div dim1 N) ((i * dim1 N + j) mod dim1 N) * v
        + data_at C ((i * dim1 N + j) div dim1 C) ((i * dim1 N + j) mod dim1 C)) ssq)
        [0..<dim1 N]) [0..<dim0 N]"
  let ?ss = "map (\<lambda>i. map (\<lambda>j. map (\<lambda>v.
        data_at N ((i * dim1 N + j) div dim1 N) ((i * dim1 N + j) mod dim1 N) * v) sqs)
        [0..<dim1 N]) [0..<dim0 N]"
  have res: "scattering_curves term params fracs N C s_size s_scale = Inr (?sig, ?ss)"
    by (simp add: scattering_curves_def Let_def run rN rC)
  have pt: "?sig ! i ! j ! k =
           data_at N i j *
             (\<Sum>n < length params.
                (\<Sum>p\<leftarrow>params ! n. term p (s_scale * real k))\<^sup>2 * fracs ! n)
           + data_at C ((i * dim1 N + j) div dim1 C) ((i * dim1 N + j) mod dim1 C)
       \<and> ?ss ! i ! j ! k =
           data_at N i j *
             (\<Sum>n < length params.
                (\<Sum>p\<leftarrow>params ! n. term p (s_scale * real k)) * fracs ! n)"
    if "i < dim0 N" "j < dim1 N" "k < s_size" for i j k
    using that val len by (simp add: bc)
  from res pt show ?thesis by blast
qed

text \<open>
  With no element the table's name is never read and the functions return: the first array
  is \<open>C\<close> broadcast along the curve and the second is zero. With at least one element the
  first turn of the lookup loop reads the name and raises.
\<close>

lemma lookup_params_unbound:
  "name \<notin> set pdf_utils_globals \<Longrightarrow> lookup_params name tbl (e # es) = Inl NameError"
  by (simp add: resolve_global_def)

lemma scattering_to_signal_raises:
  "scattering_to_signal_lobato tbl (e # es) fracs N C s_size s_scale = Inl NameError"
  "scattering_to_signal_xtables tbl (e # es) fracs N C s_size s_scale = Inl NameError"
  by (simp_all add: scattering_to_signal_lobato_def scattering_to_signal_xtables_def
      resolve_global_def pdf_utils_globals_def)

text \<open>
  C7. The claim is that both synthesizers return the fitted signal and the weighted sum of
  the base curves, and for one element of fraction 1 with \<open>N = 1\<close> and \<open>C = 0\<close> the base
  curve itself. That is what lines 92 to 113 would compute (\<open>scattering_curves_formula\<close>),
  but the module binds neither \<^verbatim>\<open>ATOMIC_SCATTERING_PARAMS_LOBATO\<close> nor
  \<^verbatim>\<open>ATOMIC_SCATTERING_PARAMS\<close>: for the single element \<^verbatim>\<open>C\<close> with fraction 1 on a
  one-pixel grid with \<open>N = 1\<close> and \<open>C = 0\<close>, both functions raise NameError in the lookup
  loop, whatever the tables hold.
\<close>

theorem scattering_to_signal_single_element_raises_NameError:
  "scattering_to_signal_lobato tbl [''C''] [1]
     \<lparr>dim0 = 1, dim1 = 1, data_at = (\<lambda>i j. 1)\<rparr> \<lparr>dim0 = 1, dim1 = 1, data_at = (\<lambda>i j. 0)\<rparr>
     2 (1 / 10) = Inl NameError
   \<and> scattering_to_signal_xtables tbl [''C''] [1]
     \<lparr>dim0 = 1, dim1 = 1, data_at = (\<lambda>i j. 1)\<rparr> \<lparr>dim0 = 1, dim1 = 1, data_at = (\<lambda>i j. 0)\<rparr>
     2 (1 / 10) = Inl NameError"
  by (simp add: scattering_to_signal_lobato_def scattering_to_signal_xtables_def
      resolve_global_def pdf_utils_globals_def)

end
